theory Spec2Isabelle
  imports Complex_Main
begin

section \<open>Data model (data\_models.py)\<close>

text \<open>
  Python floats are modelled as exact rationals: a float literal such as \<open>0.3\<close> is the
  rational \<open>3/10\<close>, and \<open>+\<close>, \<open>*\<close>, \<open>/\<close> are exact. Python ints are \<open>int\<close>. A
  \<open>datetime\<close> is the number of microseconds since a fixed epoch, a \<open>timedelta\<close> the
  difference of two of them.
\<close>

type_synonym pyfloat = rat
type_synonym datetime = int

datatype py_error = ValueError | ZeroDivisionError

datatype SignalStrength = STRONG_BUY | BUY | NEUTRAL | SELL | STRONG_SELL

text \<open>The \<open>.value\<close> of an enum member.\<close>

fun signal_value :: "SignalStrength \<Rightarrow> int" where
  "signal_value STRONG_BUY = 5"
| "signal_value BUY = 4"
| "signal_value NEUTRAL = 3"
| "signal_value SELL = 2"
| "signal_value STRONG_SELL = 1"

text \<open>The enum lookup \<open>SignalStrength(n)\<close>, which raises ValueError when no member has value \<open>n\<close>.\<close>

definition SignalStrength_of :: "int \<Rightarrow> py_error + SignalStrength" where
  "SignalStrength_of n =
     (if n = 5 then Inr STRONG_BUY
      else if n = 4 then Inr BUY
      else if n = 3 then Inr NEUTRAL
      else if n = 2 then Inr SELL
      else if n = 1 then Inr STRONG_SELL
      else Inl ValueError)"

datatype DataQuality = VERIFIED | RELIABLE | UNCERTAIN | UNRELIABLE

text \<open>
  The dataclasses. Field names that several classes share carry a prefix, since record
  fields are global constants; the untyped \<open>metadata\<close> dictionaries, which no method
  reads, are left out.
\<close>

record MarketData =
  md_symbol :: string
  md_timestamp :: datetime
  price :: pyfloat
  volume_24h :: pyfloat
  market_cap :: pyfloat
  md_open :: pyfloat
  md_high :: pyfloat
  md_low :: pyfloat
  md_close :: pyfloat
  change_24h :: pyfloat
  change_7d :: "pyfloat option"
  circulating_supply :: "pyfloat option"
  total_supply :: "pyfloat option"
  md_source :: string
  md_quality :: DataQuality

record NewsItem =
  headline :: string
  ni_source :: string
  published_at :: datetime
  url :: string
  content :: "string option"
  author :: "string option"
  sentiment_score :: pyfloat
  relevance_score :: pyfloat
  mentioned_coins :: "string list"
  categories :: "string list"
  impact_level :: string
  ni_quality :: DataQuality

record MarketSentiment =
  ms_timestamp :: datetime
  fear_greed_index :: int
  fear_greed_label :: string
  social_volume :: "int option"
  social_sentiment :: "pyfloat option"
  google_trends :: "int option"
  reddit_mentions :: "int option"
  twitter_mentions :: "int option"
  ms_source :: string
  ms_quality :: DataQuality

record TechnicalIndicators =
  ti_symbol :: string
  ti_timestamp :: datetime
  rsi_14 :: "pyfloat option"
  macd :: "pyfloat option"
  macd_signal :: "pyfloat option"
  bollinger_upper :: "pyfloat option"
  bollinger_middle :: "pyfloat option"
  bollinger_lower :: "pyfloat option"
  sma_50 :: "pyfloat option"
  sma_200 :: "pyfloat option"
  ema_12 :: "pyfloat option"
  ema_26 :: "pyfloat option"
  volume_sma_20 :: "pyfloat option"
  atr_14 :: "pyfloat option"
  support_level :: "pyfloat option"
  resistance_level :: "pyfloat option"

text \<open>
  The text lists of a CombinedSignal hold f-strings. The model keeps which template was
  used and the values put into it, not the formatted characters.
\<close>

datatype message =
    HighVolatility pyfloat
  | CriticalNews string
  | ExtremeSentiment string
  | BullishSignal pyfloat
  | BearishSignal pyfloat
  | NeutralConditions
  | PriceAction pyfloat
  | SentimentLabel string
  | NewsAnalyzed nat
  | RSIValue pyfloat

record CombinedSignal =
  symbol :: string
  timestamp :: datetime
  market_data :: "MarketData option"
  news_items :: "NewsItem list"
  sentiment :: "MarketSentiment option"
  technicals :: "TechnicalIndicators option"
  overall_signal :: SignalStrength
  confidence :: pyfloat
  risk_level :: string
  price_signal :: SignalStrength
  news_signal :: SignalStrength
  sentiment_signal :: SignalStrength
  technical_signal :: SignalStrength
  reasoning :: "message list"
  warnings :: "message list"
  opportunities :: "message list"

text \<open>
  The constructor call of the pipeline, \<open>CombinedSignal(symbol=.., timestamp=..,
  market_data=.., news_items=.., sentiment=.., technicals=..)\<close>: every other field takes
  its dataclass default.
\<close>

definition CombinedSignal_init ::
  "string \<Rightarrow> datetime \<Rightarrow> MarketData option \<Rightarrow> NewsItem list \<Rightarrow> MarketSentiment option
     \<Rightarrow> TechnicalIndicators option \<Rightarrow> CombinedSignal" where
  "CombinedSignal_init sy ts md news sent tech =
     \<lparr> symbol = sy, timestamp = ts, market_data = md, news_items = news,
       sentiment = sent, technicals = tech,
       overall_signal = NEUTRAL, confidence = 0, risk_level = ''medium'',
       price_signal = NEUTRAL, news_signal = NEUTRAL, sentiment_signal = NEUTRAL,
       technical_signal = NEUTRAL, reasoning = [], warnings = [], opportunities = [] \<rparr>"

subsection \<open>Python primitives\<close>

text \<open>Truth value of an \<open>Optional[float]\<close>: \<open>None\<close> and \<open>0.0\<close> are false.\<close>

fun truthy :: "pyfloat option \<Rightarrow> bool" where
  "truthy None = False"
| "truthy (Some x) = (x \<noteq> 0)"

text \<open>\<open>round(x)\<close> of Python 3 on a float: to the nearest integer, a tie to the even one.\<close>

definition py_round :: "pyfloat \<Rightarrow> int" where
  "py_round x =
     (let f = \<lfloor>x\<rfloor>; d = x - of_int f
      in if d < 1 / 2 then f
         else if 1 / 2 < d then f + 1
         else if even f then f else f + 1)"

subsection \<open>Per-source signals\<close>

definition get_signal_strength :: "MarketData \<Rightarrow> SignalStrength" where
  "get_signal_strength self =
     (if change_24h self > 10 then STRONG_BUY
      else if change_24h self > 3 then BUY
      else if change_24h self < - 10 then STRONG_SELL
      else if change_24h self < - 3 then SELL
      else NEUTRAL)"

definition get_signal_from_sentiment :: "NewsItem \<Rightarrow> SignalStrength" where
  "get_signal_from_sentiment self =
     (if sentiment_score self > 1 / 2 \<and> impact_level self \<in> set [''high'', ''critical'']
      then STRONG_BUY
      else if sentiment_score self > 1 / 5 then BUY
      else if sentiment_score self < - (1 / 2) \<and> impact_level self \<in> set [''high'', ''critical'']
      then STRONG_SELL
      else if sentiment_score self < - (1 / 5) then SELL
      else NEUTRAL)"

definition get_contrarian_signal :: "MarketSentiment \<Rightarrow> SignalStrength" where
  "get_contrarian_signal self =
     (if fear_greed_index self < 20 then STRONG_BUY
      else if fear_greed_index self > 80 then STRONG_SELL
      else if fear_greed_index self < 35 then BUY
      else if fear_greed_index self > 65 then SELL
      else NEUTRAL)"

definition get_rsi_signal :: "TechnicalIndicators \<Rightarrow> SignalStrength" where
  "get_rsi_signal self =
     (case rsi_14 self of
        None \<Rightarrow> NEUTRAL
      | Some r \<Rightarrow>
          if r = 0 then NEUTRAL
          else if r < 30 then STRONG_BUY
          else if r < 40 then BUY
          else if r > 70 then STRONG_SELL
          else if r > 60 then SELL
          else NEUTRAL)"

definition get_ma_signal :: "TechnicalIndicators \<Rightarrow> pyfloat \<Rightarrow> SignalStrength" where
  "get_ma_signal self current_price =
     (case (sma_50 self, sma_200 self) of
        (Some s50, Some s200) \<Rightarrow>
          if s50 = 0 \<or> s200 = 0 then NEUTRAL
          else if s50 > s200 \<and> current_price > s50 then STRONG_BUY
          else if s50 < s200 \<and> current_price < s50 then STRONG_SELL
          else if current_price > s50 then BUY
          else if current_price < s50 then SELL
          else NEUTRAL
      | _ \<Rightarrow> NEUTRAL)"

subsection \<open>CombinedSignal.calculate\_combined\_signal\<close>

text \<open>
  The method mutates \<open>self\<close> and two local lists, \<open>signals\<close> and \<open>weights\<close>. Each of its
  four blocks is a function from the three to the three; the two blocks that call
  \<open>SignalStrength(round(..))\<close> can raise.
\<close>

type_synonym calc = "CombinedSignal \<times> pyfloat list \<times> pyfloat list"

definition market_part :: "calc \<Rightarrow> calc" where
  "market_part = (\<lambda>(self, signals, weights).
     case market_data self of
       None \<Rightarrow> (self, signals, weights)
     | Some md \<Rightarrow>
         let self1 = self\<lparr>price_signal := get_signal_strength md\<rparr>;
             signals1 = signals @ [of_int (signal_value (price_signal self1))];
             weights1 = weights @ [1 / 4];
             self2 = (if \<bar>change_24h md\<bar> > 10
                      then self1\<lparr>warnings := warnings self1 @ [HighVolatility (change_24h md)]\<rparr>
                      else self1)
         in (self2, signals1, weights1))"

definition news_part :: "calc \<Rightarrow> py_error + calc" where
  "news_part = (\<lambda>(self, signals, weights).
     if news_items self = [] then Inr (self, signals, weights)
     else
       let news_scores = map (\<lambda>item. signal_value (get_signal_from_sentiment item))
                             (take 5 (news_items self))
       in if news_scores = [] then Inr (self, signals, weights)
          else
            let avg_news_signal = of_int (sum_list news_scores) / of_nat (length news_scores)
            in case SignalStrength_of (py_round avg_news_signal) of
                 Inl e \<Rightarrow> Inl e
               | Inr s \<Rightarrow>
                   let self1 = self\<lparr>news_signal := s\<rparr>;
                       signals1 = signals @ [avg_news_signal];
                       weights1 = weights @ [3 / 10];
                       critical_news = filter (\<lambda>n. impact_level n = ''critical'') (news_items self1);
                       self2 = (case critical_news of
                                  [] \<Rightarrow> self1
                                | n # _ \<Rightarrow> self1\<lparr>warnings := warnings self1
                                                        @ [CriticalNews (take 50 (headline n))]\<rparr>)
                   in Inr (self2, signals1, weights1))"

definition sentiment_part :: "calc \<Rightarrow> calc" where
  "sentiment_part = (\<lambda>(self, signals, weights).
     case sentiment self of
       None \<Rightarrow> (self, signals, weights)
     | Some ms \<Rightarrow>
         let self1 = self\<lparr>sentiment_signal := get_contrarian_signal ms\<rparr>;
             signals1 = signals @ [of_int (signal_value (sentiment_signal self1))];
             weights1 = weights @ [1 / 5];
             self2 = (if fear_greed_index ms < 20 \<or> fear_greed_index ms > 80
                      then self1\<lparr>opportunities := opportunities self1
                                      @ [ExtremeSentiment (fear_greed_label ms)]\<rparr>
                      else self1)
         in (self2, signals1, weights1))"

definition tech_signals_of :: "CombinedSignal \<Rightarrow> TechnicalIndicators \<Rightarrow> int list" where
  "tech_signals_of self ti =
     (if truthy (rsi_14 ti) then [signal_value (get_rsi_signal ti)] else [])
     @ (case market_data self of
          None \<Rightarrow> []
        | Some md \<Rightarrow>
            if truthy (sma_50 ti) then [signal_value (get_ma_signal ti (price md))] else [])"

definition technical_part :: "calc \<Rightarrow> py_error + calc" where
  "technical_part = (\<lambda>(self, signals, weights).
     case technicals self of
       None \<Rightarrow> Inr (self, signals, weights)
     | Some ti \<Rightarrow>
         let tech_signals = tech_signals_of self ti
         in if tech_signals = [] then Inr (self, signals, weights)
            else
              let avg_tech_signal = of_int (sum_list tech_signals) / of_nat (length tech_signals)
              in case SignalStrength_of (py_round avg_tech_signal) of
                   Inl e \<Rightarrow> Inl e
                 | Inr s \<Rightarrow>
                     Inr (self\<lparr>technical_signal := s\<rparr>,
                          signals @ [avg_tech_signal], weights @ [1 / 4]))"

definition risk_of :: "pyfloat \<Rightarrow> string" where
  "risk_of c =
     (if c < 3 / 10 then ''extreme''
      else if c < 1 / 2 then ''high''
      else if c < 7 / 10 then ''medium''
      else ''low'')"

definition aggregate_part :: "calc \<Rightarrow> py_error + CombinedSignal" where
  "aggregate_part = (\<lambda>(self, signals, weights).
     if signals \<noteq> [] \<and> weights \<noteq> [] then
       let weighted_sum = sum_list (map (\<lambda>(s, w). s * w) (zip signals weights));
           total_weight = sum_list weights
       in if total_weight = 0 then Inl ZeroDivisionError
          else
            let avg_signal = weighted_sum / total_weight
            in case SignalStrength_of (py_round avg_signal) of
                 Inl e \<Rightarrow> Inl e
               | Inr s \<Rightarrow>
                   let self1 = self\<lparr>overall_signal := s\<rparr>;
                       signal_variance =
                         sum_list (map (\<lambda>s. (s - avg_signal) ^ 2) signals)
                           / of_nat (length signals);
                       self2 = self1\<lparr>confidence := max 0 (min 1 (1 - signal_variance / 4))\<rparr>
                   in Inr (self2\<lparr>risk_level := risk_of (confidence self2)\<rparr>)
     else Inr self)"

definition generate_reasoning :: "CombinedSignal \<Rightarrow> CombinedSignal" where
  "generate_reasoning self =
     (let r0 = (if overall_signal self \<in> set [STRONG_BUY, BUY]
                then [BullishSignal (confidence self)]
                else if overall_signal self \<in> set [STRONG_SELL, SELL]
                then [BearishSignal (confidence self)]
                else [NeutralConditions]);
          r1 = (case market_data self of
                  None \<Rightarrow> r0
                | Some md \<Rightarrow> r0 @ [PriceAction (change_24h md)]);
          r2 = (case sentiment self of
                  None \<Rightarrow> r1
                | Some ms \<Rightarrow> r1 @ [SentimentLabel (fear_greed_label ms)]);
          r3 = (if news_items self \<noteq> []
                then r2 @ [NewsAnalyzed (length (news_items self))] else r2);
          r4 = (case technicals self of
                  None \<Rightarrow> r3
                | Some ti \<Rightarrow>
                    (case rsi_14 ti of
                       None \<Rightarrow> r3
                     | Some r \<Rightarrow> if r = 0 then r3 else r3 @ [RSIValue r]))
      in self\<lparr>reasoning := r4\<rparr>)"

text \<open>
  The lists the four blocks leave behind, before the aggregation reads them.
\<close>

definition collect_components :: "CombinedSignal \<Rightarrow> py_error + calc" where
  "collect_components self =
     (case news_part (market_part (self, [], [])) of
        Inl e \<Rightarrow> Inl e
      | Inr c \<Rightarrow> technical_part (sentiment_part c))"

definition calculate_combined_signal :: "CombinedSignal \<Rightarrow> py_error + CombinedSignal" where
  "calculate_combined_signal self =
     (case collect_components self of
        Inl e \<Rightarrow> Inl e
      | Inr c \<Rightarrow>
          (case aggregate_part c of
             Inl e \<Rightarrow> Inl e
           | Inr self' \<Rightarrow> Inr (generate_reasoning self')))"

section \<open>The aggregation as the specification words it\<close>

text \<open>
  The specification speaks of the components that are present, of their weights and of
  their ordinal contributions before rounding. The definitions below follow those words:
  a component is a pair of its weight and its contribution, and the present components
  are listed in the order price, news, sentiment, technical. They are compared with the
  lists \<open>signals\<close> and \<open>weights\<close> that the method builds.
\<close>

definition mean_of :: "int list \<Rightarrow> pyfloat" where
  "mean_of xs = of_int (sum_list xs) / of_nat (length xs)"

definition price_contribution :: "CombinedSignal \<Rightarrow> (pyfloat \<times> pyfloat) list" where
  "price_contribution cs =
     (case market_data cs of
        None \<Rightarrow> []
      | Some md \<Rightarrow> [(1 / 4, of_int (signal_value (get_signal_strength md)))])"

definition news_contribution :: "CombinedSignal \<Rightarrow> (pyfloat \<times> pyfloat) list" where
  "news_contribution cs =
     (if news_items cs = [] then []
      else [(3 / 10, mean_of (map (\<lambda>item. signal_value (get_signal_from_sentiment item))
                                  (take 5 (news_items cs))))])"

definition sentiment_contribution :: "CombinedSignal \<Rightarrow> (pyfloat \<times> pyfloat) list" where
  "sentiment_contribution cs =
     (case sentiment cs of
        None \<Rightarrow> []
      | Some ms \<Rightarrow> [(1 / 5, of_int (signal_value (get_contrarian_signal ms)))])"

definition technical_contribution :: "CombinedSignal \<Rightarrow> (pyfloat \<times> pyfloat) list" where
  "technical_contribution cs =
     (case technicals cs of
        None \<Rightarrow> []
      | Some ti \<Rightarrow>
          if tech_signals_of cs ti = [] then []
          else [(1 / 4, mean_of (tech_signals_of cs ti))])"

definition present_contributions :: "CombinedSignal \<Rightarrow> (pyfloat \<times> pyfloat) list" where
  "present_contributions cs =
     price_contribution cs @ news_contribution cs @ sentiment_contribution cs
       @ technical_contribution cs"

definition same_inputs :: "CombinedSignal \<Rightarrow> CombinedSignal \<Rightarrow> bool" where
  "same_inputs a b \<longleftrightarrow>
     symbol b = symbol a \<and> timestamp b = timestamp a \<and> market_data b = market_data a
     \<and> news_items b = news_items a \<and> sentiment b = sentiment a \<and> technicals b = technicals a"

definition same_aggregate :: "CombinedSignal \<Rightarrow> CombinedSignal \<Rightarrow> bool" where
  "same_aggregate a b \<longleftrightarrow>
     overall_signal b = overall_signal a \<and> confidence b = confidence a
     \<and> risk_level b = risk_level a"

definition weighted_mean :: "(pyfloat \<times> pyfloat) list \<Rightarrow> pyfloat" where
  "weighted_mean cl = sum_list (map (\<lambda>(w, v). w * v) cl) / sum_list (map fst cl)"

definition population_variance :: "pyfloat \<Rightarrow> pyfloat list \<Rightarrow> pyfloat" where
  "population_variance m vs = sum_list (map (\<lambda>v. (v - m) ^ 2) vs) / of_nat (length vs)"

definition spec_confidence :: "(pyfloat \<times> pyfloat) list \<Rightarrow> pyfloat" where
  "spec_confidence cl =
     max 0 (min 1 (1 - population_variance (weighted_mean cl) (map snd cl) / 4))"

definition valid_contribution :: "pyfloat \<times> pyfloat \<Rightarrow> bool" where
  "valid_contribution = (\<lambda>(w, v). 0 < w \<and> 1 \<le> v \<and> v \<le> 5)"

section \<open>The data pipeline (data\_pipeline.py)\<close>

text \<open>
  The pipeline object holds the rate-limit counters and the cache. The dictionary
  \<open>self.rate_limits\<close> is read with \<open>.get\<close> on an arbitrary service name and is a partial
  map; the dictionary \<open>self.cache\<close> has the fixed keys that \<open>__init__\<close> gives it and is a
  group of record fields, one map per category (\<open>last_update\<close>, which no method reads or
  writes, is left out). What the providers answer is not part of the program: it is an
  argument of the model. So is the clock: every \<open>datetime.now()\<close> of one call reads the
  same instant \<open>now\<close>.
  The parameter \<open>symbol\<close> of the methods is written \<open>sy\<close> here, \<open>symbol\<close> being the
  name of a field of CombinedSignal.
\<close>

record rate_entry =
  calls :: int
  rl_max :: int
  window :: int

record 'a cache_entry =
  data :: 'a
  ce_timestamp :: datetime

text \<open>
  What a call did to the outside, in order: a request sent to a provider, or a look into
  a cache category. The list is a record of effects; nothing in the program reads it.
\<close>

datatype event = LiveFetch string | CacheRead string

record pipeline =
  polygon_key :: "string option"
  rate_limits :: "string \<rightharpoonup> rate_entry"
  cache_market_data :: "string \<rightharpoonup> MarketData cache_entry"
  cache_news :: "string \<rightharpoonup> NewsItem list cache_entry"
  cache_sentiment :: "string \<rightharpoonup> MarketSentiment cache_entry"
  events :: "event list"

text \<open>
  The answers of the providers. For the two market-data adapters and the sentiment
  adapter: the record the adapter builds from the response, \<open>None\<close> when the status is not
  200, the body is not usable, or anything raises on the way (the adapter catches it).
  For the news: the items built from the first ten articles of the response when the
  loop ends normally (none when the status is not 200), or the items appended before
  something raised.
\<close>

datatype news_outcome = NewsDone "NewsItem list" | NewsRaised "NewsItem list"

record env =
  polygon_response :: "string \<Rightarrow> MarketData option"
  coingecko_response :: "string \<Rightarrow> MarketData option"
  news_response :: "string \<Rightarrow> news_outcome"
  sentiment_response :: "MarketSentiment option"

definition pipeline_init :: "string option \<Rightarrow> pipeline" where
  "pipeline_init key =
     \<lparr> polygon_key = key,
       rate_limits = [''polygon'' \<mapsto> \<lparr>calls = 0, rl_max = 5, window = 60\<rparr>,
                      ''coingecko'' \<mapsto> \<lparr>calls = 0, rl_max = 10, window = 60\<rparr>,
                      ''newsapi'' \<mapsto> \<lparr>calls = 0, rl_max = 100, window = 86400\<rparr>,
                      ''alternative'' \<mapsto> \<lparr>calls = 0, rl_max = 30, window = 60\<rparr>],
       cache_market_data = Map.empty, cache_news = Map.empty, cache_sentiment = Map.empty,
       events = [] \<rparr>"

subsection \<open>Rate limiter\<close>

definition check_rate_limit :: "string \<Rightarrow> pipeline \<Rightarrow> bool" where
  "check_rate_limit service self =
     (case rate_limits self service of
        None \<Rightarrow> True
      | Some limit \<Rightarrow> calls limit < rl_max limit)"

definition increment_rate_limit :: "string \<Rightarrow> pipeline \<Rightarrow> pipeline" where
  "increment_rate_limit service self =
     (case rate_limits self service of
        None \<Rightarrow> self
      | Some limit \<Rightarrow>
          self\<lparr>rate_limits := (rate_limits self)(service \<mapsto> limit\<lparr>calls := calls limit + 1\<rparr>)\<rparr>)"

definition reset_rate_limits :: "pipeline \<Rightarrow> pipeline" where
  "reset_rate_limits self =
     self\<lparr>rate_limits :=
            (\<lambda>service. map_option (\<lambda>limit. limit\<lparr>calls := 0\<rparr>) (rate_limits self service))\<rparr>"

subsection \<open>Cache\<close>

text \<open>
  \<open>timedelta.seconds\<close>: a timedelta is kept as days, seconds and microseconds with
  \<open>0 \<le> seconds < 86400\<close>, and the attribute is the middle part, not the whole duration.
  The argument is the difference of two datetimes in microseconds.
\<close>

definition td_seconds :: "int \<Rightarrow> int" where
  "td_seconds d = (d div 1000000) mod 86400"

text \<open>\<open>_update_cache\<close>, on the map of its category.\<close>

definition update_cache ::
  "string \<Rightarrow> 'a \<Rightarrow> datetime \<Rightarrow> (string \<rightharpoonup> 'a cache_entry) \<Rightarrow> (string \<rightharpoonup> 'a cache_entry)" where
  "update_cache key d now category = category(key \<mapsto> \<lparr>data = d, ce_timestamp = now\<rparr>)"

text \<open>
  The read that each collector spells out: \<open>if cache_key in self.cache[category]\<close>, then
  \<open>if (datetime.now() - cached['timestamp']).seconds < ttl\<close>, then \<open>cached['data']\<close>.
\<close>

definition cache_get ::
  "(string \<rightharpoonup> 'a cache_entry) \<Rightarrow> string \<Rightarrow> int \<Rightarrow> datetime \<Rightarrow> 'a option" where
  "cache_get category key ttl now =
     (case category key of
        None \<Rightarrow> None
      | Some cached \<Rightarrow>
          if td_seconds (now - ce_timestamp cached) < ttl then Some (data cached) else None)"

subsection \<open>Collectors\<close>

text \<open>Truth value of \<open>self.polygon_key\<close>: \<open>None\<close> and the empty string are false.\<close>

fun key_set :: "string option \<Rightarrow> bool" where
  "key_set None = False"
| "key_set (Some k) = (k \<noteq> [])"

definition fetch_polygon_data ::
  "env \<Rightarrow> datetime \<Rightarrow> string \<Rightarrow> pipeline \<Rightarrow> MarketData option \<times> pipeline" where
  "fetch_polygon_data ev now sy self =
     (let self1 = self\<lparr>events := events self @ [LiveFetch ''polygon'']\<rparr>
      in case polygon_response ev sy of
           None \<Rightarrow> (None, self1)
         | Some md \<Rightarrow>
             (Some md,
              increment_rate_limit ''polygon''
                (self1\<lparr>cache_market_data :=
                          update_cache (''market_'' @ sy) md now (cache_market_data self1)\<rparr>)))"

definition fetch_coingecko_data ::
  "env \<Rightarrow> datetime \<Rightarrow> string \<Rightarrow> pipeline \<Rightarrow> MarketData option \<times> pipeline" where
  "fetch_coingecko_data ev now sy self =
     (let self1 = self\<lparr>events := events self @ [LiveFetch ''coingecko'']\<rparr>
      in case coingecko_response ev sy of
           None \<Rightarrow> (None, self1)
         | Some md \<Rightarrow>
             (Some md,
              increment_rate_limit ''coingecko''
                (self1\<lparr>cache_market_data :=
                          update_cache (''market_'' @ sy) md now (cache_market_data self1)\<rparr>)))"

definition collect_market_data ::
  "env \<Rightarrow> datetime \<Rightarrow> string \<Rightarrow> pipeline \<Rightarrow> MarketData option \<times> pipeline" where
  "collect_market_data ev now sy self =
     (case (if key_set (polygon_key self) \<and> check_rate_limit ''polygon'' self
            then fetch_polygon_data ev now sy self else (None, self)) of
        (Some d, self1) \<Rightarrow> (Some d, self1)
      | (None, self1) \<Rightarrow>
          (case (if check_rate_limit ''coingecko'' self1
                 then fetch_coingecko_data ev now sy self1 else (None, self1)) of
             (Some d, self2) \<Rightarrow> (Some d, self2)
           | (None, self2) \<Rightarrow>
               (cache_get (cache_market_data self2) (''market_'' @ sy) 300 now,
                self2\<lparr>events := events self2 @ [CacheRead ''market_data'']\<rparr>)))"

definition collect_news ::
  "env \<Rightarrow> datetime \<Rightarrow> string \<Rightarrow> pipeline \<Rightarrow> NewsItem list \<times> pipeline" where
  "collect_news ev now sy self =
     (let self1 = self\<lparr>events := events self @ [CacheRead ''news'']\<rparr>
      in case cache_get (cache_news self1) (''news_'' @ sy) 1800 now of
           Some d \<Rightarrow> (d, self1)
         | None \<Rightarrow>
             (let self2 = self1\<lparr>events := events self1 @ [LiveFetch ''cryptocompare'']\<rparr>
              in case news_response ev sy of
                   NewsDone items \<Rightarrow>
                     (items,
                      self2\<lparr>cache_news :=
                               update_cache (''news_'' @ sy) items now (cache_news self2)\<rparr>)
                 | NewsRaised items \<Rightarrow> (items, self2)))"

definition collect_sentiment ::
  "env \<Rightarrow> datetime \<Rightarrow> pipeline \<Rightarrow> MarketSentiment option \<times> pipeline" where
  "collect_sentiment ev now self =
     (let self1 = self\<lparr>events := events self @ [CacheRead ''sentiment'']\<rparr>
      in case cache_get (cache_sentiment self1) ''sentiment_global'' 3600 now of
           Some d \<Rightarrow> (Some d, self1)
         | None \<Rightarrow>
             (let self2 = self1\<lparr>events := events self1 @ [LiveFetch ''alternative'']\<rparr>
              in case sentiment_response ev of
                   None \<Rightarrow> (None, self2)
                 | Some sent \<Rightarrow>
                     (Some sent,
                      increment_rate_limit ''alternative''
                        (self2\<lparr>cache_sentiment :=
                                  update_cache ''sentiment_global'' sent now
                                    (cache_sentiment self2)\<rparr>))))"

definition calculate_technicals :: "datetime \<Rightarrow> string \<Rightarrow> TechnicalIndicators option" where
  "calculate_technicals now sy =
     Some \<lparr> ti_symbol = sy, ti_timestamp = now, rsi_14 = Some 50, macd = None,
            macd_signal = None, bollinger_upper = None, bollinger_middle = None,
            bollinger_lower = None, sma_50 = Some 0, sma_200 = Some 0, ema_12 = None,
            ema_26 = None, volume_sma_20 = None, atr_14 = None, support_level = None,
            resistance_level = None \<rparr>"

subsection \<open>collect\_all\_data\<close>

text \<open>
  The body of the \<open>try\<close> block for one symbol. The four tasks touch different cache
  categories and different counters, so the order in which the event loop runs them does
  not show in the state; they are run here in the order of the task list. Each of them
  catches what it raises, so \<open>gather\<close> collects no exception from them. The body as a whole
  ends with the combined signal or with the exception that the \<open>except\<close> clause catches.
\<close>

definition process_symbol ::
  "env \<Rightarrow> datetime \<Rightarrow> pipeline \<Rightarrow> string \<Rightarrow> (py_error + CombinedSignal) \<times> pipeline" where
  "process_symbol ev now self sy =
     (case collect_market_data ev now sy self of
        (market, self1) \<Rightarrow>
          (case collect_news ev now sy self1 of
             (news, self2) \<Rightarrow>
               (case collect_sentiment ev now self2 of
                  (sent, self3) \<Rightarrow>
                    (calculate_combined_signal
                       (CombinedSignal_init sy now market news sent
                          (calculate_technicals now sy)),
                     self3))))"

text \<open>
  The loop of \<open>collect_all_data\<close> over any body: an exception of the body is caught and
  the loop goes on to the next symbol (\<open>continue\<close>); a result is stored under the symbol.
\<close>

fun collect_all_data_loop ::
  "('st \<Rightarrow> string \<Rightarrow> (py_error + CombinedSignal) \<times> 'st) \<Rightarrow> string list
     \<Rightarrow> (string \<rightharpoonup> CombinedSignal) \<times> 'st \<Rightarrow> (string \<rightharpoonup> CombinedSignal) \<times> 'st" where
  "collect_all_data_loop body [] (combined_signals, self) = (combined_signals, self)"
| "collect_all_data_loop body (sy # symbols) (combined_signals, self) =
     (case body self sy of
        (Inl e, self1) \<Rightarrow> collect_all_data_loop body symbols (combined_signals, self1)
      | (Inr combined, self1) \<Rightarrow>
          collect_all_data_loop body symbols (combined_signals(sy \<mapsto> combined), self1))"

definition collect_all_data ::
  "env \<Rightarrow> datetime \<Rightarrow> string list \<Rightarrow> pipeline \<Rightarrow> (string \<rightharpoonup> CombinedSignal) \<times> pipeline" where
  "collect_all_data ev now symbols self =
     collect_all_data_loop (process_symbol ev now) symbols (Map.empty, self)"

section \<open>Concrete inputs\<close>

text \<open>Records on which the definitions are evaluated.\<close>

definition example_market :: "pyfloat \<Rightarrow> pyfloat \<Rightarrow> MarketData" where
  "example_market p ch =
     \<lparr> md_symbol = ''BTC'', md_timestamp = 0, price = p, volume_24h = 0, market_cap = 0,
       md_open = p, md_high = p, md_low = p, md_close = p, change_24h = ch,
       change_7d = None, circulating_supply = None, total_supply = None,
       md_source = ''coingecko'', md_quality = RELIABLE \<rparr>"

definition example_news :: "string \<Rightarrow> pyfloat \<Rightarrow> string \<Rightarrow> NewsItem" where
  "example_news h sc imp =
     \<lparr> headline = h, ni_source = ''Unknown'', published_at = 0, url = [],
       content = None, author = None, sentiment_score = sc, relevance_score = 1 / 2,
       mentioned_coins = [''BTC''], categories = [], impact_level = imp,
       ni_quality = RELIABLE \<rparr>"

definition example_sentiment :: "int \<Rightarrow> string \<Rightarrow> MarketSentiment" where
  "example_sentiment i l =
     \<lparr> ms_timestamp = 0, fear_greed_index = i, fear_greed_label = l,
       social_volume = None, social_sentiment = None, google_trends = None,
       reddit_mentions = None, twitter_mentions = None,
       ms_source = ''alternative.me'', ms_quality = RELIABLE \<rparr>"

definition example_technicals ::
  "pyfloat option \<Rightarrow> pyfloat option \<Rightarrow> pyfloat option \<Rightarrow> TechnicalIndicators" where
  "example_technicals r s50 s200 =
     \<lparr> ti_symbol = ''BTC'', ti_timestamp = 0, rsi_14 = r, macd = None, macd_signal = None,
       bollinger_upper = None, bollinger_middle = None, bollinger_lower = None,
       sma_50 = s50, sma_200 = s200, ema_12 = None, ema_26 = None, volume_sma_20 = None,
       atr_14 = None, support_level = None, resistance_level = None \<rparr>"

definition c2_input :: CombinedSignal where
  "c2_input = CombinedSignal_init ''BTC'' 0 (Some (example_market 100 0))
     [example_news ''a'' (3 / 10) ''low'', example_news ''b'' 0 ''low''] None None"






text \<open>
  The events that a call added: those of the state it returned, after those of the state
  it was given.
\<close>

definition new_events :: "pipeline \<Rightarrow> pipeline \<Rightarrow> event list" where
  "new_events before after = drop (length (events before)) (events after)"

text \<open>
  Providers of which the first market-data adapter fails and every other one answers, and
  a pipeline whose three cache categories were written at time 0.
\<close>

definition example_env :: env where
  "example_env =
     \<lparr> polygon_response = (\<lambda>sy. None),
       coingecko_response = (\<lambda>sy. Some (example_market 200 1)),
       news_response = (\<lambda>sy. NewsDone [example_news ''fresh'' (9 / 10) ''high'']),
       sentiment_response = Some (example_sentiment 10 ''Extreme Fear'') \<rparr>"

definition cached_pipeline :: pipeline where
  "cached_pipeline =
     (pipeline_init (Some ''key''))
       \<lparr> cache_market_data := update_cache ''market_BTC'' (example_market 100 0) 0 Map.empty,
         cache_news := update_cache ''news_BTC'' [example_news ''old'' 0 ''low''] 0 Map.empty,
         cache_sentiment :=
           update_cache ''sentiment_global'' (example_sentiment 50 ''Neutral'') 0 Map.empty \<rparr>"

text \<open>The same pipeline when the quota of the second market-data adapter is used up.\<close>

definition exhausted_pipeline :: pipeline where
  "exhausted_pipeline =
     cached_pipeline
       \<lparr> rate_limits := (rate_limits cached_pipeline)
            (''coingecko'' \<mapsto> \<lparr>calls = 10, rl_max = 10, window = 60\<rparr>) \<rparr>"

text \<open>Providers that all fail.\<close>

definition offline_env :: env where
  "offline_env =
     \<lparr> polygon_response = (\<lambda>sy. None), coingecko_response = (\<lambda>sy. None),
       news_response = (\<lambda>sy. NewsRaised []), sentiment_response = None \<rparr>"

lemma signal_value_range: "1 \<le> signal_value s \<and> signal_value s \<le> 5"
  by (cases s) simp_all

lemma SignalStrength_of_ok:
  "1 \<le> n \<Longrightarrow> n \<le> 5 \<Longrightarrow> \<exists>s. SignalStrength_of n = Inr s \<and> signal_value s = n"
  unfolding SignalStrength_of_def by (auto simp: ) 

lemma py_round_floor: "\<lfloor>x\<rfloor> \<le> py_round x \<and> py_round x \<le> \<lfloor>x\<rfloor> + 1"
  unfolding py_round_def Let_def by simp

lemma py_round_of_int: "py_round (of_int n) = n"
  unfolding py_round_def Let_def by simp

lemma py_round_lower: "of_int a \<le> x \<Longrightarrow> a \<le> py_round x"
proof -
  assume "of_int a \<le> x"
  then have "a \<le> \<lfloor>x\<rfloor>" by (simp add: le_floor_iff)
  with py_round_floor [of x] show ?thesis by linarith
qed

lemma py_round_upper: "x \<le> of_int b \<Longrightarrow> py_round x \<le> b"
proof -
  assume le: "x \<le> of_int b"
  then have fl: "\<lfloor>x\<rfloor> \<le> b" by (simp add: floor_le_iff)
  show ?thesis
  proof (cases "\<lfloor>x\<rfloor> = b")
    case True
    then have "of_int b \<le> x" using of_int_floor_le [of x] by simp
    with le have "x = of_int b" by simp
    then show ?thesis by (simp add: py_round_of_int)
  next
    case False
    with fl have "\<lfloor>x\<rfloor> + 1 \<le> b" by simp
    with py_round_floor [of x] show ?thesis by linarith
  qed
qed

lemma sum_list_int_range:
  "\<forall>x\<in>set xs. 1 \<le> x \<and> x \<le> 5 \<Longrightarrow>
     int (length xs) \<le> sum_list xs \<and> sum_list xs \<le> 5 * int (length xs)"
  by (induction xs) auto

lemma mean_of_range:
  assumes "xs \<noteq> []" and "\<forall>x\<in>set xs. 1 \<le> x \<and> x \<le> 5"
  shows "1 \<le> mean_of xs \<and> mean_of xs \<le> 5"
proof -
  have n: "(0::rat) < of_nat (length xs)" using assms(1) by simp
  from sum_list_int_range [OF assms(2)]
  have "(of_int (int (length xs))::rat) \<le> of_int (sum_list xs)"
    and "(of_int (sum_list xs)::rat) \<le> of_int (5 * int (length xs))"
    by (simp_all only: of_int_le_iff)
  then have "(of_nat (length xs)::rat) \<le> of_int (sum_list xs)"
    and "(of_int (sum_list xs)::rat) \<le> 5 * of_nat (length xs)"
    by simp_all
  with n show ?thesis
    unfolding mean_of_def by (simp add: pos_le_divide_eq pos_divide_le_eq)
qed

lemma mean_of_replicate: "0 < n \<Longrightarrow> mean_of (replicate n v) = of_int v"
  unfolding mean_of_def by (simp add: sum_list_replicate)

lemma round_mean_ok:
  assumes "xs \<noteq> []" and "\<forall>x\<in>set xs. 1 \<le> x \<and> x \<le> 5"
  shows "\<exists>s. SignalStrength_of (py_round (mean_of xs)) = Inr s"
proof -
  from mean_of_range [OF assms] have "of_int 1 \<le> mean_of xs" "mean_of xs \<le> of_int 5" by simp_all
  then have "1 \<le> py_round (mean_of xs)" "py_round (mean_of xs) \<le> 5"
    using py_round_lower [of 1 "mean_of xs"] py_round_upper [of "mean_of xs" 5] by simp_all
  from SignalStrength_of_ok [OF this] show ?thesis by blast
qed


lemma same_inputs_refl: "same_inputs a a" and same_aggregate_refl: "same_aggregate a a"
  by (simp_all add: same_inputs_def same_aggregate_def)

lemma same_inputs_trans: "same_inputs a b \<Longrightarrow> same_inputs b c \<Longrightarrow> same_inputs a c"
  by (simp add: same_inputs_def)

lemma same_aggregate_trans: "same_aggregate a b \<Longrightarrow> same_aggregate b c \<Longrightarrow> same_aggregate a c"
  by (simp add: same_aggregate_def)

lemma contributions_cong:
  assumes "same_inputs a b"
  shows "price_contribution b = price_contribution a"
    and "news_contribution b = news_contribution a"
    and "sentiment_contribution b = sentiment_contribution a"
    and "technical_contribution b = technical_contribution a"
proof -
  have t: "tech_signals_of b = tech_signals_of a"
    using assms by (intro ext) (simp add: same_inputs_def tech_signals_of_def)
  show "price_contribution b = price_contribution a"
    and "news_contribution b = news_contribution a"
    and "sentiment_contribution b = sentiment_contribution a"
    and "technical_contribution b = technical_contribution a"
    using assms
    by (simp_all add: same_inputs_def price_contribution_def news_contribution_def
        sentiment_contribution_def technical_contribution_def t split: option.split)
qed

lemma market_part_eq:
  "\<exists>s'. market_part (s, sg, ws)
          = (s', sg @ map snd (price_contribution s), ws @ map fst (price_contribution s))
        \<and> same_inputs s s' \<and> same_aggregate s s'"
  by (simp add: market_part_def price_contribution_def Let_def same_inputs_def
      same_aggregate_def split: option.split)

lemma sentiment_part_eq:
  "\<exists>s'. sentiment_part (s, sg, ws)
          = (s', sg @ map snd (sentiment_contribution s), ws @ map fst (sentiment_contribution s))
        \<and> same_inputs s s' \<and> same_aggregate s s'"
  by (simp add: sentiment_part_def sentiment_contribution_def Let_def same_inputs_def
      same_aggregate_def split: option.split)

lemma news_part_eq:
  "\<exists>s'. news_part (s, sg, ws)
          = Inr (s', sg @ map snd (news_contribution s), ws @ map fst (news_contribution s))
        \<and> same_inputs s s' \<and> same_aggregate s s'"
proof (cases "news_items s = []")
  case True
  then show ?thesis
    by (simp add: news_part_def news_contribution_def same_inputs_def same_aggregate_def)
next
  case False
  define scores where
    "scores = map (\<lambda>item. signal_value (get_signal_from_sentiment item)) (take 5 (news_items s))"
  have ne: "scores \<noteq> []" using False by (simp add: scores_def)
  have rng: "\<forall>x\<in>set scores. 1 \<le> x \<and> x \<le> 5"
    by (auto simp: scores_def signal_value_range)
  from round_mean_ok [OF ne rng] obtain v where
    v: "SignalStrength_of (py_round (of_int (sum_list scores) / of_nat (length scores))) = Inr v"
    unfolding mean_of_def by blast
  show ?thesis
    using False ne v
    by (simp add: news_part_def news_contribution_def mean_of_def Let_def same_inputs_def
        same_aggregate_def scores_def [symmetric] split: list.split)
qed

lemma technical_part_eq:
  "\<exists>s'. technical_part (s, sg, ws)
          = Inr (s', sg @ map snd (technical_contribution s),
                 ws @ map fst (technical_contribution s))
        \<and> same_inputs s s' \<and> same_aggregate s s'"
proof (cases "technicals s")
  case None
  then show ?thesis
    by (simp add: technical_part_def technical_contribution_def same_inputs_def
        same_aggregate_def)
next
  case (Some ti)
  show ?thesis
  proof (cases "tech_signals_of s ti = []")
    case True
    with Some show ?thesis
      by (simp add: technical_part_def technical_contribution_def same_inputs_def
          same_aggregate_def)
  next
    case False
    have rng: "\<forall>x\<in>set (tech_signals_of s ti). 1 \<le> x \<and> x \<le> 5"
      by (auto simp: tech_signals_of_def signal_value_range split: option.splits if_splits)
    from round_mean_ok [OF False rng] obtain v where
      v: "SignalStrength_of (py_round (of_int (sum_list (tech_signals_of s ti))
            / of_nat (length (tech_signals_of s ti)))) = Inr v"
      unfolding mean_of_def by blast
    show ?thesis
      using Some False v
      by (simp add: technical_part_def technical_contribution_def mean_of_def Let_def
          same_inputs_def same_aggregate_def)
  qed
qed

lemma collect_components_eq:
  "\<exists>s'. collect_components s
          = Inr (s', map snd (present_contributions s), map fst (present_contributions s))
        \<and> same_inputs s s' \<and> same_aggregate s s'"
proof -
  obtain s1 where s1: "market_part (s, [], [])
        = (s1, map snd (price_contribution s), map fst (price_contribution s))"
      and i1: "same_inputs s s1" and a1: "same_aggregate s s1"
    using market_part_eq [of s "[]" "[]"] by auto
  obtain s2 where s2: "news_part (s1, map snd (price_contribution s), map fst (price_contribution s))
        = Inr (s2, map snd (price_contribution s) @ map snd (news_contribution s1),
               map fst (price_contribution s) @ map fst (news_contribution s1))"
      and i2: "same_inputs s1 s2" and a2: "same_aggregate s1 s2"
    using news_part_eq by blast
  obtain s3 where s3: "sentiment_part (s2, map snd (price_contribution s) @ map snd (news_contribution s1),
               map fst (price_contribution s) @ map fst (news_contribution s1))
        = (s3, (map snd (price_contribution s) @ map snd (news_contribution s1))
                 @ map snd (sentiment_contribution s2),
               (map fst (price_contribution s) @ map fst (news_contribution s1))
                 @ map fst (sentiment_contribution s2))"
      and i3: "same_inputs s2 s3" and a3: "same_aggregate s2 s3"
    using sentiment_part_eq by blast
  obtain s4 where s4: "technical_part (s3, (map snd (price_contribution s) @ map snd (news_contribution s1))
                 @ map snd (sentiment_contribution s2),
               (map fst (price_contribution s) @ map fst (news_contribution s1))
                 @ map fst (sentiment_contribution s2))
        = Inr (s4, ((map snd (price_contribution s) @ map snd (news_contribution s1))
                 @ map snd (sentiment_contribution s2)) @ map snd (technical_contribution s3),
               ((map fst (price_contribution s) @ map fst (news_contribution s1))
                 @ map fst (sentiment_contribution s2)) @ map fst (technical_contribution s3))"
      and i4: "same_inputs s3 s4" and a4: "same_aggregate s3 s4"
    using technical_part_eq by blast
  have i12: "same_inputs s s2" using i1 i2 by (rule same_inputs_trans)
  have i13: "same_inputs s s3" using i12 i3 by (rule same_inputs_trans)
  have i14: "same_inputs s s4" using i13 i4 by (rule same_inputs_trans)
  have a14: "same_aggregate s s4"
    using a1 a2 a3 a4 by (simp add: same_aggregate_def)
  have "collect_components s
          = Inr (s4, map snd (present_contributions s), map fst (present_contributions s))"
    using s1 s2 s3 s4 contributions_cong [OF i1] contributions_cong [OF i12]
      contributions_cong [OF i13]
    by (simp add: collect_components_def present_contributions_def)
  with i14 a14 show ?thesis by blast
qed


lemma of_int_signal_value_range:
  "(1::rat) \<le> of_int (signal_value x) \<and> (of_int (signal_value x)::rat) \<le> 5"
  by (cases x) simp_all

lemma price_contribution_valid: "\<forall>c\<in>set (price_contribution s). valid_contribution c"
  by (cases "market_data s")
    (simp_all add: price_contribution_def valid_contribution_def signal_value_range)

lemma sentiment_contribution_valid:
  "\<forall>c\<in>set (sentiment_contribution s). valid_contribution c"
  by (cases "sentiment s")
    (simp_all add: sentiment_contribution_def valid_contribution_def signal_value_range)

lemma news_contribution_valid: "\<forall>c\<in>set (news_contribution s). valid_contribution c"
proof (cases "news_items s = []")
  case True
  then show ?thesis by (simp add: news_contribution_def)
next
  case False
  let ?xs = "map (\<lambda>item. signal_value (get_signal_from_sentiment item)) (take 5 (news_items s))"
  have "?xs \<noteq> []" using False by simp
  moreover have "\<forall>x\<in>set ?xs. 1 \<le> x \<and> x \<le> 5" by (auto simp: signal_value_range)
  ultimately have "1 \<le> mean_of ?xs \<and> mean_of ?xs \<le> 5" by (rule mean_of_range)
  with False show ?thesis by (simp add: news_contribution_def valid_contribution_def)
qed

lemma tech_signals_range: "\<forall>x\<in>set (tech_signals_of s ti). 1 \<le> x \<and> x \<le> 5"
  by (auto simp: tech_signals_of_def signal_value_range split: option.splits if_splits)

lemma technical_contribution_valid:
  "\<forall>c\<in>set (technical_contribution s). valid_contribution c"
proof (cases "technicals s")
  case None
  then show ?thesis by (simp add: technical_contribution_def)
next
  case (Some ti)
  show ?thesis
  proof (cases "tech_signals_of s ti = []")
    case True
    with Some show ?thesis by (simp add: technical_contribution_def)
  next
    case False
    from mean_of_range [OF False tech_signals_range]
    show ?thesis using Some False
      by (simp add: technical_contribution_def valid_contribution_def)
  qed
qed

lemma contributions_valid:
  "\<forall>c\<in>set (present_contributions s). valid_contribution c"
  using price_contribution_valid [of s] news_contribution_valid [of s]
    sentiment_contribution_valid [of s] technical_contribution_valid [of s]
  by (auto simp: present_contributions_def)

lemma weighted_sum_bounds:
  "\<forall>c\<in>set cl. valid_contribution c \<Longrightarrow>
     0 \<le> sum_list (map fst cl)
     \<and> sum_list (map fst cl) \<le> sum_list (map (\<lambda>(w, v). w * v) cl)
     \<and> sum_list (map (\<lambda>(w, v). w * v) cl) \<le> 5 * sum_list (map fst cl)"
proof (induction cl)
  case Nil
  then show ?case by simp
next
  case (Cons c cl)
  obtain w v where c: "c = (w, v)" by (cases c)
  from Cons.prems c have w: "0 < w" and v1: "1 \<le> v" and v5: "v \<le> 5"
    by (simp_all add: valid_contribution_def)
  have h1: "w \<le> w * v" using mult_left_mono [of 1 v w] w v1 by simp
  have h2: "w * v \<le> 5 * w" using mult_left_mono [of v 5 w] w v5 by (simp add: mult.commute)
  from Cons have ih: "0 \<le> sum_list (map fst cl)"
     "sum_list (map fst cl) \<le> sum_list (map (\<lambda>(w, v). w * v) cl)"
     "sum_list (map (\<lambda>(w, v). w * v) cl) \<le> 5 * sum_list (map fst cl)" by simp_all
  have e1: "sum_list (map fst (c # cl)) = w + sum_list (map fst cl)" by (simp add: c)
  have e2: "sum_list (map (\<lambda>(w, v). w * v) (c # cl))
              = w * v + sum_list (map (\<lambda>(w, v). w * v) cl)" by (simp add: c)
  have g1: "0 \<le> w + sum_list (map fst cl)" using w ih(1) by simp
  have g2: "w + sum_list (map fst cl) \<le> w * v + sum_list (map (\<lambda>(w, v). w * v) cl)"
    by (rule add_mono [OF h1 ih(2)])
  have "w * v + sum_list (map (\<lambda>(w, v). w * v) cl) \<le> 5 * w + 5 * sum_list (map fst cl)"
    by (rule add_mono [OF h2 ih(3)])
  then have g3: "w * v + sum_list (map (\<lambda>(w, v). w * v) cl)
                  \<le> 5 * (w + sum_list (map fst cl))"
    by (simp add: distrib_left)
  show ?case unfolding e1 e2 using g1 g2 g3 by blast
qed

lemma total_weight_pos:
  "cl \<noteq> [] \<Longrightarrow> \<forall>c\<in>set cl. valid_contribution c \<Longrightarrow> 0 < sum_list (map fst cl)"
proof (cases cl)
  case Nil
  assume "cl \<noteq> []" with Nil show ?thesis by simp
next
  case (Cons c cl')
  assume a: "\<forall>c\<in>set cl. valid_contribution c"
  with Cons have "0 < fst c" by (auto simp: valid_contribution_def)
  moreover from a Cons have "0 \<le> sum_list (map fst cl')"
    using weighted_sum_bounds [of cl'] by simp
  ultimately show ?thesis using Cons by simp
qed

lemma weighted_mean_range:
  assumes "cl \<noteq> []" and "\<forall>c\<in>set cl. valid_contribution c"
  shows "1 \<le> weighted_mean cl \<and> weighted_mean cl \<le> 5"
proof -
  from total_weight_pos [OF assms] have p: "0 < sum_list (map fst cl)" .
  from weighted_sum_bounds [OF assms(2)] p show ?thesis
    unfolding weighted_mean_def by (simp add: pos_le_divide_eq pos_divide_le_eq)
qed

lemma zip_weighted_sum:
  "sum_list (map (\<lambda>(s, w). s * w) (zip (map snd cl) (map fst cl)))
     = sum_list (map (\<lambda>(w, v). w * v) (cl :: (pyfloat \<times> pyfloat) list))"
proof (induction cl)
  case Nil
  then show ?case by simp
next
  case (Cons c cl)
  obtain w v where c: "c = (w, v)" by (cases c)
  from Cons show ?case by (simp add: c mult.commute [of v w])
qed

lemma round_weighted_mean_ok:
  assumes "cl \<noteq> []" and "\<forall>c\<in>set cl. valid_contribution c"
  shows "\<exists>ov. SignalStrength_of (py_round (weighted_mean cl)) = Inr ov
           \<and> signal_value ov = py_round (weighted_mean cl)"
proof -
  from weighted_mean_range [OF assms]
  have "of_int 1 \<le> weighted_mean cl" "weighted_mean cl \<le> of_int 5" by simp_all
  then have "1 \<le> py_round (weighted_mean cl)" "py_round (weighted_mean cl) \<le> 5"
    using py_round_lower [of 1 "weighted_mean cl"] py_round_upper [of "weighted_mean cl" 5]
    by simp_all
  from SignalStrength_of_ok [OF this] show ?thesis .
qed

lemma aggregate_part_empty: "aggregate_part (s, [], []) = Inr s"
  by (simp add: aggregate_part_def)

lemma aggregate_part_eq:
  assumes "cl \<noteq> []" and "\<forall>c\<in>set cl. valid_contribution c"
    and ov: "SignalStrength_of (py_round (weighted_mean cl)) = Inr ov"
  shows "aggregate_part (s, map snd cl, map fst cl)
           = Inr (s\<lparr>overall_signal := ov, confidence := spec_confidence cl,
                    risk_level := risk_of (spec_confidence cl)\<rparr>)"
proof -
  from total_weight_pos [OF assms(1,2)] have p: "sum_list (map fst cl) \<noteq> 0" by simp
  have wm: "sum_list (map (\<lambda>(s, w). s * w) (zip (map snd cl) (map fst cl)))
              / sum_list (map fst cl) = weighted_mean cl"
    by (simp add: zip_weighted_sum weighted_mean_def)
  show ?thesis
    using assms(1) p ov
    by (simp add: aggregate_part_def Let_def wm spec_confidence_def population_variance_def)
qed

lemma generate_reasoning_frame:
  "same_inputs s (generate_reasoning s) \<and> same_aggregate s (generate_reasoning s)"
  by (simp add: generate_reasoning_def Let_def same_inputs_def same_aggregate_def)

lemma calculate_present:
  assumes "present_contributions s \<noteq> []"
  shows "\<exists>r ov. calculate_combined_signal s = Inr r
           \<and> SignalStrength_of (py_round (weighted_mean (present_contributions s))) = Inr ov
           \<and> signal_value ov = py_round (weighted_mean (present_contributions s))
           \<and> overall_signal r = ov
           \<and> confidence r = spec_confidence (present_contributions s)
           \<and> risk_level r = risk_of (spec_confidence (present_contributions s))
           \<and> same_inputs s r"
proof -
  let ?cl = "present_contributions s"
  obtain s' where c: "collect_components s = Inr (s', map snd ?cl, map fst ?cl)"
      and i: "same_inputs s s'"
    using collect_components_eq by blast
  obtain ov where ov: "SignalStrength_of (py_round (weighted_mean ?cl)) = Inr ov"
      and sv: "signal_value ov = py_round (weighted_mean ?cl)"
    using round_weighted_mean_ok [OF assms contributions_valid] by blast
  let ?a = "s'\<lparr>overall_signal := ov, confidence := spec_confidence ?cl,
                 risk_level := risk_of (spec_confidence ?cl)\<rparr>"
  have a: "aggregate_part (s', map snd ?cl, map fst ?cl) = Inr ?a"
    by (rule aggregate_part_eq [OF assms contributions_valid ov])
  have r: "calculate_combined_signal s = Inr (generate_reasoning ?a)"
    by (simp add: calculate_combined_signal_def c a)
  have "same_inputs s ?a" using i by (simp add: same_inputs_def)
  then have "same_inputs s (generate_reasoning ?a)"
    using generate_reasoning_frame [of ?a] by (blast intro: same_inputs_trans)
  moreover have "same_aggregate ?a (generate_reasoning ?a)"
    using generate_reasoning_frame [of ?a] by blast
  ultimately show ?thesis
    using r ov sv by (simp add: same_aggregate_def)
qed

lemma calculate_absent:
  assumes "present_contributions s = []"
  shows "\<exists>r. calculate_combined_signal s = Inr r \<and> same_inputs s r \<and> same_aggregate s r"
proof -
  obtain s' where c: "collect_components s = Inr (s', [], [])"
      and i: "same_inputs s s'" and a: "same_aggregate s s'"
    using collect_components_eq [of s] assms by auto
  have r: "calculate_combined_signal s = Inr (generate_reasoning s')"
    by (simp add: calculate_combined_signal_def c aggregate_part_empty)
  from i a generate_reasoning_frame [of s'] show ?thesis
    unfolding r by (blast intro: same_inputs_trans same_aggregate_trans)
qed




lemma spec_confidence_range: "0 \<le> spec_confidence cl \<and> spec_confidence cl \<le> 1"
  by (simp add: spec_confidence_def)

subsection \<open>The concrete inputs, evaluated\<close>

lemmas example_defs = example_market_def example_news_def example_sentiment_def
  example_technicals_def CombinedSignal_init_def




subsection \<open>Absent indicators\<close>



lemma calculate_total: "\<exists>r. calculate_combined_signal s = Inr r"
  using calculate_present [of s] calculate_absent [of s] by blast




section \<open>The data pipeline: auxiliary facts\<close>

subsection \<open>Rate limiter\<close>

lemma increment_rate_limit_entry:
  "rate_limits self service = Some limit \<Longrightarrow>
     rate_limits (increment_rate_limit service self) service
       = Some (limit\<lparr>calls := calls limit + 1\<rparr>)"
  by (simp add: increment_rate_limit_def)

lemma increment_rate_limit_iterated:
  "rate_limits self service = Some limit \<Longrightarrow>
     rate_limits ((increment_rate_limit service ^^ k) self) service
       = Some (limit\<lparr>calls := calls limit + int k\<rparr>)"
proof (induction k)
  case 0
  then show ?case by simp
next
  case (Suc k)
  from increment_rate_limit_entry [OF Suc.IH [OF Suc.prems]]
  show ?case by (simp add: add.assoc)
qed

lemma reset_rate_limits_entry:
  "rate_limits self service = Some limit \<Longrightarrow>
     rate_limits (reset_rate_limits self) service = Some (limit\<lparr>calls := 0\<rparr>)"
  by (simp add: reset_rate_limits_def)

lemma reset_rate_limits_zero:
  "rate_limits (reset_rate_limits self) service = Some limit \<Longrightarrow> calls limit = 0"
  by (auto simp add: reset_rate_limits_def)

subsection \<open>Cache\<close>

lemma cache_get_after_update:
  "cache_get (update_cache key d t0 category) key ttl now
     = (if td_seconds (now - t0) < ttl then Some d else None)"
  by (simp add: cache_get_def update_cache_def)

lemma td_seconds_small:
  assumes "0 \<le> d" and "d < ttl * 1000000" and "ttl \<le> 86400"
  shows "td_seconds d < ttl"
proof -
  have "d div 1000000 < ttl" using assms(2) by (simp add: div_less_iff_less_mult)
  moreover have "0 \<le> d div 1000000" using assms(1) by (simp add: pos_imp_zdiv_nonneg_iff)
  ultimately show ?thesis using assms(3) by (simp add: td_seconds_def)
qed

lemma cache_get_within_ttl:
  assumes "0 \<le> now - t0" and "now - t0 < ttl * 1000000" and "ttl \<le> 86400"
  shows "cache_get (update_cache key d t0 category) key ttl now = Some d"
  using td_seconds_small [OF assms] by (simp add: cache_get_after_update)

subsection \<open>Collectors\<close>

text \<open>
  The three ways in which the market-data collector ends: with the first provider's
  record, with the second provider's record, or with what the cache holds.
\<close>

lemma collect_market_data_polygon:
  assumes "key_set (polygon_key p)" and "check_rate_limit ''polygon'' p"
    and "polygon_response ev sy = Some md"
  shows "fst (collect_market_data ev now sy p) = Some md"
    and "new_events p (snd (collect_market_data ev now sy p)) = [LiveFetch ''polygon'']"
  using assms
  by (simp_all add: collect_market_data_def fetch_polygon_data_def increment_rate_limit_def
      check_rate_limit_def new_events_def Let_def split: option.splits)

lemma collect_market_data_coingecko:
  assumes "\<not> (key_set (polygon_key p) \<and> check_rate_limit ''polygon'' p
              \<and> polygon_response ev sy \<noteq> None)"
    and "check_rate_limit ''coingecko'' p" and "coingecko_response ev sy = Some md"
  shows "fst (collect_market_data ev now sy p) = Some md"
    and "CacheRead ''market_data'' \<notin> set (new_events p (snd (collect_market_data ev now sy p)))"
  using assms
  by (auto simp add: collect_market_data_def fetch_polygon_data_def fetch_coingecko_data_def
      increment_rate_limit_def check_rate_limit_def new_events_def Let_def
      split: option.splits)

lemma collect_market_data_cache:
  assumes "\<not> (key_set (polygon_key p) \<and> check_rate_limit ''polygon'' p
              \<and> polygon_response ev sy \<noteq> None)"
    and "\<not> (check_rate_limit ''coingecko'' p \<and> coingecko_response ev sy \<noteq> None)"
  shows "fst (collect_market_data ev now sy p)
           = cache_get (cache_market_data p) (''market_'' @ sy) 300 now"
    and "CacheRead ''market_data'' \<in> set (new_events p (snd (collect_market_data ev now sy p)))"
  using assms
  by (auto simp add: collect_market_data_def fetch_polygon_data_def fetch_coingecko_data_def
      increment_rate_limit_def check_rate_limit_def new_events_def Let_def
      split: option.splits)

subsection \<open>The loop\<close>




text \<open>
  The body of the pipeline itself never raises: every symbol of the list is a key of the
  map that \<open>collect_all_data\<close> returns.
\<close>

lemma process_symbol_returns:
  "\<exists>r self1. process_symbol ev now self sy = (Inr r, self1)"
proof -
  obtain market self1 where a: "collect_market_data ev now sy self = (market, self1)"
    by (cases "collect_market_data ev now sy self")
  obtain news self2 where b: "collect_news ev now sy self1 = (news, self2)"
    by (cases "collect_news ev now sy self1")
  obtain sent self3 where c: "collect_sentiment ev now self2 = (sent, self3)"
    by (cases "collect_sentiment ev now self2")
  obtain r where "calculate_combined_signal
      (CombinedSignal_init sy now market news sent (calculate_technicals now sy)) = Inr r"
    using calculate_total by blast
  then show ?thesis by (simp add: process_symbol_def a b c)
qed

lemma collect_all_data_loop_keys:
  assumes "\<And>st y. \<exists>r st1. body st y = (Inr r, st1)"
  shows "dom (fst (collect_all_data_loop body ys (m, st))) = dom m \<union> set ys"
proof (induction ys arbitrary: m st)
  case Nil
  then show ?case by simp
next
  case (Cons y ys)
  obtain r st1 where b: "body st y = (Inr r, st1)" using assms by blast
  have "dom (fst (collect_all_data_loop body ys (m(y \<mapsto> r), st1)))
      = dom (m(y \<mapsto> r)) \<union> set ys"
    by (rule Cons.IH)
  then show ?case by (simp add: b)
qed

lemma collect_all_data_keys: "dom (fst (collect_all_data ev now symbols self)) = set symbols"
  using collect_all_data_loop_keys [of "process_symbol ev now" symbols Map.empty self]
    process_symbol_returns
  by (simp add: collect_all_data_def)

subsection \<open>The concrete pipelines, evaluated\<close>

lemmas pipeline_example_defs = cached_pipeline_def exhausted_pipeline_def pipeline_init_def
  example_env_def offline_env_def update_cache_def

lemmas collector_defs = collect_market_data_def fetch_polygon_data_def
  fetch_coingecko_data_def collect_news_def collect_sentiment_def check_rate_limit_def
  increment_rate_limit_def cache_get_def td_seconds_def Let_def

lemma cached_pipeline_live:
  "key_set (polygon_key cached_pipeline) \<and> check_rate_limit ''polygon'' cached_pipeline
   \<and> check_rate_limit ''coingecko'' cached_pipeline
   \<and> coingecko_response example_env ''BTC'' = Some (example_market 200 1)
   \<and> polygon_response example_env ''BTC'' = None"
  by (simp add: pipeline_example_defs check_rate_limit_def)

lemma exhausted_pipeline_events:
  "events exhausted_pipeline = []
   \<and> events (snd (collect_market_data example_env 60000000 ''BTC'' exhausted_pipeline))
       = [LiveFetch ''polygon'', CacheRead ''market_data'']
   \<and> cache_get (cache_market_data exhausted_pipeline) ''market_BTC'' 300 60000000
       = Some (example_market 100 0)"
  by (simp add: pipeline_example_defs collector_defs)

lemma cached_pipeline_caches:
  "cache_get (cache_news cached_pipeline) ''news_BTC'' 1800 60000000
     = Some [example_news ''old'' 0 ''low'']
   \<and> cache_get (cache_sentiment cached_pipeline) ''sentiment_global'' 3600 60000000
     = Some (example_sentiment 50 ''Neutral'')
   \<and> events cached_pipeline = []"
  by (simp add: pipeline_example_defs cache_get_def td_seconds_def)

section \<open>The fusion engine: the claims\<close>

subsection \<open>No component present\<close>

text \<open>
  Claim C1 says that with no market data, no news, no sentiment and no technical
  contribution the method produces \<open>overall_signal = NEUTRAL\<close>, \<open>confidence = 0.0\<close> and
  \<open>risk_level = "extreme"\<close>. On the record that the pipeline constructs for such a symbol
  the method returns without an error, the overall signal is NEUTRAL and the confidence
  0, but the risk level is \<open>"medium"\<close>: the guard \<open>if signals and weights\<close> skips the whole
  aggregation, the risk thresholds included, and the field keeps its dataclass default.
\<close>

theorem no_components_risk_is_medium:
  "calculate_combined_signal (CombinedSignal_init ''BTC'' 0 None [] None None)
     = Inr ((CombinedSignal_init ''BTC'' 0 None [] None None)\<lparr>reasoning := [NeutralConditions]\<rparr>)
   \<and> risk_level ((CombinedSignal_init ''BTC'' 0 None [] None None)
        \<lparr>reasoning := [NeutralConditions]\<rparr>) = ''medium''"
  by code_simp

text \<open>
  Claim C1, as the code has it: when no component is present (a TechnicalIndicators
  record without a usable \<open>rsi_14\<close> counts as none, since without market data the moving
  averages are not read), the method returns normally and \<open>overall_signal\<close>,
  \<open>confidence\<close> and \<open>risk_level\<close> keep the values they had before the call. No division
  is attempted.
\<close>

theorem no_components_keeps_aggregate:
  assumes "market_data s = None" and "news_items s = []" and "sentiment s = None"
    and "case technicals s of None \<Rightarrow> True | Some ti \<Rightarrow> \<not> truthy (rsi_14 ti)"
  shows "\<exists>r. calculate_combined_signal s = Inr r \<and> overall_signal r = overall_signal s
           \<and> confidence r = confidence s \<and> risk_level r = risk_level s"
proof -
  have "technical_contribution s = []"
    using assms(1,4)
    by (cases "technicals s") (simp_all add: technical_contribution_def tech_signals_of_def)
  then have "present_contributions s = []"
    using assms(1-3)
    by (simp add: present_contributions_def price_contribution_def news_contribution_def
        sentiment_contribution_def)
  from calculate_absent [OF this] show ?thesis by (auto simp: same_aggregate_def)
qed

text \<open>
  An instance: a freshly constructed record whose only component is a TechnicalIndicators
  record with every field absent ends NEUTRAL, with confidence 0 and risk \<open>"medium"\<close>.
\<close>

theorem no_components_keeps_aggregate_witness:
  "\<exists>r. calculate_combined_signal
          (CombinedSignal_init ''BTC'' 0 None [] None (Some (example_technicals None None None)))
        = Inr r
      \<and> overall_signal r = NEUTRAL \<and> confidence r = 0 \<and> risk_level r = ''medium''"
  using no_components_keeps_aggregate [of "CombinedSignal_init ''BTC'' 0 None [] None
      (Some (example_technicals None None None))"]
  by (simp add: example_defs)

subsection \<open>The overall signal\<close>




subsection \<open>The confidence\<close>



subsection \<open>Range of the results\<close>

text \<open>
  Claim C7: for every input whose confidence field lies in \<open>[0, 1]\<close> (the constructor
  sets it to 0; the component ordinals are enum members and thereby in 1..5), the method
  returns without raising, so every \<open>SignalStrength(round(..))\<close> conversion in it
  succeeded; afterwards the confidence lies in \<open>[0, 1]\<close> and \<open>overall_signal\<close>,
  \<open>news_signal\<close> and \<open>technical_signal\<close> have values in 1..5.
\<close>

theorem calculate_combined_signal_safe:
  assumes "0 \<le> confidence s" and "confidence s \<le> 1"
  shows "\<exists>r. calculate_combined_signal s = Inr r
           \<and> 0 \<le> confidence r \<and> confidence r \<le> 1
           \<and> 1 \<le> signal_value (overall_signal r) \<and> signal_value (overall_signal r) \<le> 5
           \<and> 1 \<le> signal_value (news_signal r) \<and> signal_value (news_signal r) \<le> 5
           \<and> 1 \<le> signal_value (technical_signal r) \<and> signal_value (technical_signal r) \<le> 5"
proof (cases "present_contributions s = []")
  case True
  from calculate_absent [OF True] assms show ?thesis
    by (auto simp: same_aggregate_def signal_value_range)
next
  case False
  from calculate_present [OF False] spec_confidence_range [of "present_contributions s"]
  show ?thesis by (auto simp: signal_value_range)
qed

text \<open>An instance: the record with a flat price and two news items.\<close>

theorem calculate_combined_signal_safe_witness:
  "\<exists>r. calculate_combined_signal c2_input = Inr r
      \<and> 0 \<le> confidence r \<and> confidence r \<le> 1
      \<and> 1 \<le> signal_value (overall_signal r) \<and> signal_value (overall_signal r) \<le> 5
      \<and> 1 \<le> signal_value (news_signal r) \<and> signal_value (news_signal r) \<le> 5
      \<and> 1 \<le> signal_value (technical_signal r) \<and> signal_value (technical_signal r) \<le> 5"
  using calculate_combined_signal_safe [of c2_input]
  by (simp add: c2_input_def CombinedSignal_init_def)

subsection \<open>Frame\<close>

text \<open>
  Claim C10: the method returns normally and leaves \<open>symbol\<close>, \<open>timestamp\<close>,
  \<open>market_data\<close>, \<open>news_items\<close>, \<open>sentiment\<close> and \<open>technicals\<close> as they were, the
  component records included (they are values of the record here).
\<close>

theorem calculate_combined_signal_frame:
  "\<exists>r. calculate_combined_signal s = Inr r
      \<and> symbol r = symbol s \<and> timestamp r = timestamp s \<and> market_data r = market_data s
      \<and> news_items r = news_items s \<and> sentiment r = sentiment s
      \<and> technicals r = technicals s"
proof (cases "present_contributions s = []")
  case True
  from calculate_absent [OF True] show ?thesis by (auto simp: same_inputs_def)
next
  case False
  from calculate_present [OF False] show ?thesis by (auto simp: same_inputs_def)
qed

subsection \<open>Absent technical indicators\<close>




section \<open>The data pipeline: the claims\<close>

subsection \<open>Rate limiter\<close>

text \<open>
  Claim C6: for a provider with quota \<open>max\<close> whose counter is zero, the check returns true
  after \<open>k\<close> granted calls, each of which incremented the counter by one, exactly when
  \<open>k < max\<close>: the first \<open>max\<close> acquisitions succeed and the next one is denied. After
  \<open>reset_rate_limits\<close> the counter of every provider is zero, and the check succeeds again
  (for a positive quota).
\<close>

theorem rate_limit_quota:
  assumes "rate_limits self service = Some limit" and "calls limit = 0"
  shows "(check_rate_limit service ((increment_rate_limit service ^^ k) self)
            \<longleftrightarrow> int k < rl_max limit)
       \<and> rate_limits (increment_rate_limit service ((increment_rate_limit service ^^ k) self))
            service = Some (limit\<lparr>calls := int k + 1\<rparr>)
       \<and> (\<forall>svc l. rate_limits (reset_rate_limits ((increment_rate_limit service ^^ k) self)) svc
                     = Some l \<longrightarrow> calls l = 0)
       \<and> (check_rate_limit service (reset_rate_limits ((increment_rate_limit service ^^ k) self))
            \<longleftrightarrow> 0 < rl_max limit)"
proof -
  let ?after = "(increment_rate_limit service ^^ k) self"
  have k: "rate_limits ?after service = Some (limit\<lparr>calls := int k\<rparr>)"
    using increment_rate_limit_iterated [OF assms(1), of k] assms(2) by simp
  have "check_rate_limit service ?after \<longleftrightarrow> int k < rl_max limit"
    by (simp add: check_rate_limit_def k)
  moreover have "rate_limits (increment_rate_limit service ?after) service
      = Some (limit\<lparr>calls := int k + 1\<rparr>)"
    using increment_rate_limit_entry [OF k] by simp
  moreover have "\<forall>svc l. rate_limits (reset_rate_limits ?after) svc = Some l \<longrightarrow> calls l = 0"
    using reset_rate_limits_zero by blast
  moreover have "check_rate_limit service (reset_rate_limits ?after) \<longleftrightarrow> 0 < rl_max limit"
    using reset_rate_limits_entry [OF k] by (simp add: check_rate_limit_def)
  ultimately show ?thesis by blast
qed

text \<open>
  An instance: the first provider of a new pipeline has quota 5. After four granted calls
  the check succeeds, after five it fails, and after a reset it succeeds again.
\<close>

theorem rate_limit_quota_witness:
  "check_rate_limit ''polygon'' ((increment_rate_limit ''polygon'' ^^ 4) (pipeline_init None))
   \<and> \<not> check_rate_limit ''polygon'' ((increment_rate_limit ''polygon'' ^^ 5) (pipeline_init None))
   \<and> check_rate_limit ''polygon''
        (reset_rate_limits ((increment_rate_limit ''polygon'' ^^ 5) (pipeline_init None)))"
  using rate_limit_quota [where self = "pipeline_init None" and service = "''polygon''"
      and limit = "\<lparr>calls = 0, rl_max = 5, window = 60\<rparr>" and k = 4]
    rate_limit_quota [where self = "pipeline_init None" and service = "''polygon''"
      and limit = "\<lparr>calls = 0, rl_max = 5, window = 60\<rparr>" and k = 5]
  by (simp add: pipeline_init_def)

subsection \<open>Cache\<close>

text \<open>
  Claim C5 says that a record written to the cache is read back while the time since the
  write is within the TTL of its category, and that the read misses once the TTL has
  elapsed. The reads compare \<open>(datetime.now() - cached['timestamp']).seconds\<close> with the
  TTL, and \<open>.seconds\<close> is the seconds part of the difference, which starts again at 0 every
  day. A market-data record written at time 0 is missed 400 seconds later, as the claim
  says, but it is served again 86410 seconds later (one day and ten seconds; the TTL is 300
  seconds), by the bare read and by \<open>_collect_market_data\<close> when no provider answers.
\<close>

theorem cache_get_serves_entry_after_ttl:
  "cache_get (update_cache ''market_BTC'' (example_market 100 0) 0 Map.empty)
       ''market_BTC'' 300 (400 * 1000000) = None
   \<and> cache_get (update_cache ''market_BTC'' (example_market 100 0) 0 Map.empty)
       ''market_BTC'' 300 (86410 * 1000000) = Some (example_market 100 0)
   \<and> fst (collect_market_data offline_env (86410 * 1000000) ''BTC'' cached_pipeline)
       = Some (example_market 100 0)"
  by (simp add: pipeline_example_defs collector_defs)

subsection \<open>Order of live fetch and cache\<close>

text \<open>
  Claim C4 says that, in every category, the cache is consulted only after every live
  fetch has failed or been rate-limited, and that a successful live fetch is preferred to
  a cache hit. \<open>_collect_news\<close> and \<open>_collect_sentiment\<close> read the cache first (the
  source says so: \<open>Check cache first\<close>) and return a fresh entry without any request.
  With entries written 60 seconds ago and providers that would answer with other data,
  both return the cached data, and the only event of each call is the cache read.
\<close>

theorem news_and_sentiment_read_cache_first:
  "fst (collect_news example_env 60000000 ''BTC'' cached_pipeline)
     = [example_news ''old'' 0 ''low'']
   \<and> events (snd (collect_news example_env 60000000 ''BTC'' cached_pipeline))
     = [CacheRead ''news'']
   \<and> news_response example_env ''BTC'' = NewsDone [example_news ''fresh'' (9 / 10) ''high'']
   \<and> fst (collect_sentiment example_env 60000000 cached_pipeline)
     = Some (example_sentiment 50 ''Neutral'')
   \<and> events (snd (collect_sentiment example_env 60000000 cached_pipeline))
     = [CacheRead ''sentiment'']
   \<and> sentiment_response example_env = Some (example_sentiment 10 ''Extreme Fear'')"
  by (simp add: pipeline_example_defs collector_defs)

text \<open>
  Claim C4, as the code has it. For market data the live fetches come first: when the
  first provider is usable (key set, quota left) and answers, or the second one has quota
  left and answers, the result is that answer (the first provider's if it gave one) and
  the cache is not read; the cache is read only when neither gave a result, and then the
  result is what the cache holds for the symbol within 300 seconds. For news and for
  sentiment the cache comes first: a fresh entry is returned, and the only effect of the
  call is the cache read.
\<close>

theorem market_data_live_first_others_cache_first:
  "((key_set (polygon_key p) \<and> check_rate_limit ''polygon'' p
        \<and> polygon_response ev sy \<noteq> None)
      \<or> (check_rate_limit ''coingecko'' p \<and> coingecko_response ev sy \<noteq> None) \<longrightarrow>
        fst (collect_market_data ev now sy p)
          = (if key_set (polygon_key p) \<and> check_rate_limit ''polygon'' p
                \<and> polygon_response ev sy \<noteq> None
             then polygon_response ev sy else coingecko_response ev sy)
        \<and> fst (collect_market_data ev now sy p) \<noteq> None
        \<and> CacheRead ''market_data''
            \<notin> set (new_events p (snd (collect_market_data ev now sy p))))
   \<and> (CacheRead ''market_data''
          \<in> set (new_events q (snd (collect_market_data ev now sy q))) \<longrightarrow>
        (\<not> key_set (polygon_key q) \<or> \<not> check_rate_limit ''polygon'' q
           \<or> polygon_response ev sy = None)
        \<and> (\<not> check_rate_limit ''coingecko'' q \<or> coingecko_response ev sy = None)
        \<and> fst (collect_market_data ev now sy q)
            = cache_get (cache_market_data q) (''market_'' @ sy) 300 now)
   \<and> (cache_get (cache_news n) (''news_'' @ sy) 1800 now = Some news \<longrightarrow>
        collect_news ev now sy n = (news, n\<lparr>events := events n @ [CacheRead ''news'']\<rparr>))
   \<and> (cache_get (cache_sentiment s) ''sentiment_global'' 3600 now = Some sent \<longrightarrow>
        collect_sentiment ev now s
          = (Some sent, s\<lparr>events := events s @ [CacheRead ''sentiment'']\<rparr>))"
proof (intro conjI impI)
  assume live: "(key_set (polygon_key p) \<and> check_rate_limit ''polygon'' p
        \<and> polygon_response ev sy \<noteq> None)
      \<or> (check_rate_limit ''coingecko'' p \<and> coingecko_response ev sy \<noteq> None)"
  have main: "fst (collect_market_data ev now sy p)
          = (if key_set (polygon_key p) \<and> check_rate_limit ''polygon'' p
                \<and> polygon_response ev sy \<noteq> None
             then polygon_response ev sy else coingecko_response ev sy)
        \<and> fst (collect_market_data ev now sy p) \<noteq> None
        \<and> CacheRead ''market_data''
            \<notin> set (new_events p (snd (collect_market_data ev now sy p)))"
  proof (cases "key_set (polygon_key p) \<and> check_rate_limit ''polygon'' p
        \<and> polygon_response ev sy \<noteq> None")
    case True
    then obtain md where md: "polygon_response ev sy = Some md" by auto
    from True md collect_market_data_polygon [of p ev sy md now]
    show ?thesis by simp
  next
    case False
    with live obtain md where c: "check_rate_limit ''coingecko'' p"
      and md: "coingecko_response ev sy = Some md" by auto
    from False md collect_market_data_coingecko [OF False c md, of now]
    show ?thesis by simp
  qed
  from main show "fst (collect_market_data ev now sy p)
          = (if key_set (polygon_key p) \<and> check_rate_limit ''polygon'' p
                \<and> polygon_response ev sy \<noteq> None
             then polygon_response ev sy else coingecko_response ev sy)"
    by (rule conjunct1)
  from main show "fst (collect_market_data ev now sy p) \<noteq> None"
    by (rule conjunct1 [OF conjunct2])
  from main show "CacheRead ''market_data''
            \<notin> set (new_events p (snd (collect_market_data ev now sy p)))"
    by (rule conjunct2 [OF conjunct2])
next
  assume read: "CacheRead ''market_data''
          \<in> set (new_events q (snd (collect_market_data ev now sy q)))"
  have a: "\<not> (key_set (polygon_key q) \<and> check_rate_limit ''polygon'' q
              \<and> polygon_response ev sy \<noteq> None)"
  proof
    assume h: "key_set (polygon_key q) \<and> check_rate_limit ''polygon'' q
              \<and> polygon_response ev sy \<noteq> None"
    then obtain md where "polygon_response ev sy = Some md" by auto
    with h collect_market_data_polygon(2) [of q ev sy md now] read show False by simp
  qed
  have b: "\<not> (check_rate_limit ''coingecko'' q \<and> coingecko_response ev sy \<noteq> None)"
  proof
    assume h: "check_rate_limit ''coingecko'' q \<and> coingecko_response ev sy \<noteq> None"
    then obtain md where "coingecko_response ev sy = Some md" by auto
    with h collect_market_data_coingecko(2) [OF a, of md now] read show False by simp
  qed
  from a show "\<not> key_set (polygon_key q) \<or> \<not> check_rate_limit ''polygon'' q
           \<or> polygon_response ev sy = None"
    by simp
  from b show "\<not> check_rate_limit ''coingecko'' q \<or> coingecko_response ev sy = None"
    by simp
  from collect_market_data_cache(1) [OF a b]
  show "fst (collect_market_data ev now sy q)
            = cache_get (cache_market_data q) (''market_'' @ sy) 300 now" .
next
  assume "cache_get (cache_news n) (''news_'' @ sy) 1800 now = Some news"
  then show "collect_news ev now sy n
      = (news, n\<lparr>events := events n @ [CacheRead ''news'']\<rparr>)"
    by (simp add: collect_news_def Let_def)
next
  assume "cache_get (cache_sentiment s) ''sentiment_global'' 3600 now = Some sent"
  then show "collect_sentiment ev now s
      = (Some sent, s\<lparr>events := events s @ [CacheRead ''sentiment'']\<rparr>)"
    by (simp add: collect_sentiment_def Let_def)
qed

text \<open>
  An instance. With the first provider failing and the second answering, the pipeline
  with fresh cache entries returns the second provider's record and reads no cache; once
  the second provider's quota is used up it returns the cached record; news and sentiment
  come from the cache.
\<close>

theorem market_data_live_first_others_cache_first_witness:
  "fst (collect_market_data example_env 60000000 ''BTC'' cached_pipeline)
     = Some (example_market 200 1)
   \<and> CacheRead ''market_data''
       \<notin> set (new_events cached_pipeline
                (snd (collect_market_data example_env 60000000 ''BTC'' cached_pipeline)))
   \<and> fst (collect_market_data example_env 60000000 ''BTC'' exhausted_pipeline)
       = Some (example_market 100 0)
   \<and> collect_news example_env 60000000 ''BTC'' cached_pipeline
       = ([example_news ''old'' 0 ''low''], cached_pipeline\<lparr>events := [CacheRead ''news'']\<rparr>)
   \<and> collect_sentiment example_env 60000000 cached_pipeline
       = (Some (example_sentiment 50 ''Neutral''),
          cached_pipeline\<lparr>events := [CacheRead ''sentiment'']\<rparr>)"
  using market_data_live_first_others_cache_first [where ev = example_env and now = 60000000
      and sy = "''BTC''" and p = cached_pipeline and q = exhausted_pipeline
      and n = cached_pipeline and s = cached_pipeline
      and news = "[example_news ''old'' 0 ''low'']"
      and sent = "example_sentiment 50 ''Neutral''"]
    cached_pipeline_live exhausted_pipeline_events cached_pipeline_caches
  by (simp add: new_events_def)

subsection \<open>A failing symbol\<close>



end
